theory Spec2Isabelle
  imports Main "HOL-Library.Sublist"
begin

section \<open>The Flask demo service of app.py: in-memory store and request handlers\<close>

text \<open>
  The service keeps one process-wide dictionary \<^verbatim>\<open>data_store\<close> with a visit counter
  and two lists (users, messages). Every handler reads or updates that dictionary, so the
  handlers are modelled as functions from the store (and the request) to the new store and
  the handler's outcome: a Flask response \<open>(body, status)\<close> or the Python exception that
  the handler raises, which Flask answers with the 500 handler.

  What the handlers read from outside the store is a parameter of every step: the
  variables \<^verbatim>\<open>API_KEY\<close> and \<^verbatim>\<open>ENVIRONMENT\<close> of \<^verbatim>\<open>os.environ\<close> and the clock read by
  \<^verbatim>\<open>datetime.utcnow()\<close>.

  The HTML pages are built by string concatenation and handed to
  \<^verbatim>\<open>render_template_string\<close>, which compiles the whole string as a Jinja template. A
  page is modelled by the values that the handler pastes into the fixed markup, in the
  order it pastes them. The fixed markup of app.py has no Jinja delimiter, so the template
  is plain text unless a pasted text has one; then the engine evaluates what the text
  says, with the objects of the process in reach. The engine and the string methods
  \<^verbatim>\<open>lower\<close> and \<^verbatim>\<open>upper\<close> are library code and are parameters of the model.
\<close>

subsection \<open>Python values and the operations the handlers apply to them\<close>

text \<open>
  The exceptions of the handlers' own expressions, and \<open>TemplateError\<close> for whatever the
  template engine raises while it compiles or renders.
\<close>

datatype py_error = TypeError | IndexError | KeyError | AttributeError | TemplateError

text \<open>
  What \<^verbatim>\<open>request.get_json()\<close> can return: \<open>JNull\<close> is Python's \<^verbatim>\<open>None\<close>. A dict is the
  list of its items; its keys are strings. JSON numbers are modelled by the integers.
\<close>

datatype json =
    JNull
  | JBool bool
  | JNum int
  | JStr string
  | JArr "json list"
  | JObj "(string \<times> json) list"

text \<open>Truth value of an object, as \<^verbatim>\<open>not data\<close> tests it.\<close>

fun truthy :: "json \<Rightarrow> bool" where
  "truthy JNull = False"
| "truthy (JBool b) = b"
| "truthy (JNum n) = (n \<noteq> 0)"
| "truthy (JStr s) = (s \<noteq> [])"
| "truthy (JArr xs) = (xs \<noteq> [])"
| "truthy (JObj kvs) = (kvs \<noteq> [])"

text \<open>
  \<^verbatim>\<open>k in data\<close> for a string \<open>k\<close>: key membership in a dict, element membership in a list,
  substring test in a string, \<^verbatim>\<open>TypeError\<close> for a value that is not a container.
\<close>

fun py_in :: "string \<Rightarrow> json \<Rightarrow> py_error + bool" where
  "py_in k (JObj kvs) = Inr (k \<in> set (map fst kvs))"
| "py_in k (JArr xs) = Inr (JStr k \<in> set xs)"
| "py_in k (JStr s) = Inr (sublist k s)"
| "py_in k JNull = Inl TypeError"
| "py_in k (JBool b) = Inl TypeError"
| "py_in k (JNum n) = Inl TypeError"

text \<open>\<^verbatim>\<open>data[k]\<close> for a string \<open>k\<close>.\<close>

fun py_getitem :: "json \<Rightarrow> string \<Rightarrow> py_error + json" where
  "py_getitem (JObj kvs) k = (case map_of kvs k of None \<Rightarrow> Inl KeyError | Some v \<Rightarrow> Inr v)"
| "py_getitem (JArr xs) k = Inl TypeError"
| "py_getitem (JStr s) k = Inl TypeError"
| "py_getitem JNull k = Inl TypeError"
| "py_getitem (JBool b) k = Inl TypeError"
| "py_getitem (JNum n) k = Inl TypeError"

text \<open>\<^verbatim>\<open>data.get(k, d)\<close>: only a dict has the method.\<close>

fun py_get :: "json \<Rightarrow> string \<Rightarrow> json \<Rightarrow> py_error + json" where
  "py_get (JObj kvs) k d = Inr (case map_of kvs k of None \<Rightarrow> d | Some v \<Rightarrow> v)"
| "py_get (JArr xs) k d = Inl AttributeError"
| "py_get (JStr s) k d = Inl AttributeError"
| "py_get JNull k d = Inl AttributeError"
| "py_get (JBool b) k d = Inl AttributeError"
| "py_get (JNum n) k d = Inl AttributeError"

text \<open>\<^verbatim>\<open>"..." + x\<close>: concatenation to a string literal needs a string.\<close>

fun str_concat :: "json \<Rightarrow> py_error + string" where
  "str_concat (JStr s) = Inr s"
| "str_concat JNull = Inl TypeError"
| "str_concat (JBool b) = Inl TypeError"
| "str_concat (JNum n) = Inl TypeError"
| "str_concat (JArr xs) = Inl TypeError"
| "str_concat (JObj kvs) = Inl TypeError"

text \<open>
  A list comprehension \<^verbatim>\<open>[f(x) for x in xs]\<close> whose body may raise: the elements are
  evaluated in order and the first exception ends the comprehension. The second function
  is the comprehension with a condition, \<^verbatim>\<open>[x for x in xs if p(x)]\<close>.
\<close>

fun comprehension :: "('a \<Rightarrow> py_error + 'b) \<Rightarrow> 'a list \<Rightarrow> py_error + 'b list" where
  "comprehension f [] = Inr []"
| "comprehension f (x # xs) =
     (case f x of
        Inl e \<Rightarrow> Inl e
      | Inr y \<Rightarrow> (case comprehension f xs of Inl e \<Rightarrow> Inl e | Inr ys \<Rightarrow> Inr (y # ys)))"

fun comprehension_if :: "('a \<Rightarrow> py_error + bool) \<Rightarrow> 'a list \<Rightarrow> py_error + 'a list" where
  "comprehension_if p [] = Inr []"
| "comprehension_if p (x # xs) =
     (case p x of
        Inl e \<Rightarrow> Inl e
      | Inr b \<Rightarrow>
          (case comprehension_if p xs of
             Inl e \<Rightarrow> Inl e
           | Inr ys \<Rightarrow> Inr (if b then x # ys else ys)))"

subsection \<open>The store\<close>

text \<open>
  The field \<open>created_at\<close> of a record is the string that
  \<^verbatim>\<open>datetime.utcnow().isoformat()\<close> gave when the record was made.
\<close>

record user =
  user_id :: int
  user_name :: json
  user_email :: json
  user_created_at :: string

record message =
  msg_id :: int
  msg_content :: json
  msg_author :: json
  msg_created_at :: string

record data_store =
  visits :: int
  users :: "user list"
  messages :: "message list"

definition init_store :: data_store where
  "init_store = \<lparr>visits = 0, users = [], messages = []\<rparr>"

subsection \<open>Requests, environment and responses\<close>

datatype http_method = GET | POST | DELETE | HEAD | OPTIONS | OTHER

text \<open>
  \<open>route\<close> is the URL rule that matched the path, with the value of the converter
  \<^verbatim>\<open><int:user_id>\<close> (digits only, so never negative); \<open>NoRoute\<close> when no rule matched.
\<close>

datatype route =
    Home
  | Health
  | Stats
  | Users
  | UserDetail nat
  | Messages
  | Search
  | NoRoute

text \<open>
  The outcome of \<^verbatim>\<open>request.get_json()\<close>, called with its defaults. \<open>NotJson\<close>: the request
  has no JSON body (its content type is not JSON), and Flask ends the request with 415
  Unsupported Media Type. \<open>Malformed\<close>: the content type is JSON and the body does not
  parse, and Flask ends the request with 400 Bad Request. \<open>Parsed\<close>: the parsed value,
  \<open>JNull\<close> for the body \<^verbatim>\<open>null\<close>.
\<close>

datatype payload = NotJson | Malformed | Parsed json

record request =
  meth :: http_method
  path :: route
  x_api_key :: "string option"
  get_json :: payload
  args_q :: "string option"

text \<open>
  The clock is read as two strings: \<open>utcnow\<close> is \<^verbatim>\<open>datetime.utcnow().isoformat()\<close> and
  \<open>utcnow_strftime\<close> is \<^verbatim>\<open>datetime.utcnow().strftime('%Y-%m-%d %H:%M:%S')\<close>.
\<close>

record env =
  API_KEY :: "string option"
  ENVIRONMENT :: "string option"
  utcnow :: string
  utcnow_strftime :: string

text \<open>
  Response bodies. The JSON bodies carry what \<^verbatim>\<open>jsonify\<close> is given; a page carries the
  values pasted into its markup. A card is the avatar letter and the record shown.
  \<open>Rendered\<close> is a page as the template engine rendered it from a template with Jinja
  delimiters: the values that appear where the handler's were pasted.
\<close>

datatype content =
    ErrorJson string
  | UserCreated user
  | UserDeleted
  | MessageCreated message
  | HomePage int nat nat
  | HealthPage string string
  | StatsPage nat nat int string string
  | UsersPage nat "(string \<times> user) list"
  | UserNotFoundPage nat
  | UserDetailPage string string string user
  | MessagesPage nat "(string \<times> message) list"
  | SearchPromptPage
  | SearchResultsPage string nat "(string \<times> user) list"
  | NotFoundJson
  | InternalErrorJson
  | MethodNotAllowedPage
  | HttpErrorPage
  | OptionsBody
  | Rendered content

type_synonym response = "content \<times> nat"

type_synonym outcome = "data_store \<times> (py_error + response)"

subsection \<open>Library code: string methods and the template engine\<close>

text \<open>
  \<open>str_lower\<close> and \<open>str_upper\<close> are Python's \<^verbatim>\<open>str.lower\<close> and \<^verbatim>\<open>str.upper\<close>. \<open>jinja\<close> is
  what compiling and rendering a template with Jinja delimiters does: it is given the
  page and the store, which the template's expressions can reach and change, and it
  returns the store it leaves and the rendered page or the exception raised.
\<close>

record runtime =
  str_lower :: "string \<Rightarrow> string"
  str_upper :: "string \<Rightarrow> string"
  jinja :: "data_store \<Rightarrow> content \<Rightarrow> data_store \<times> (py_error + content)"

text \<open>\<^verbatim>\<open>x.lower()\<close> on a stored value: only a string has the method.\<close>

fun py_lower :: "runtime \<Rightarrow> json \<Rightarrow> py_error + string" where
  "py_lower rt (JStr s) = Inr (str_lower rt s)"
| "py_lower rt JNull = Inl AttributeError"
| "py_lower rt (JBool b) = Inl AttributeError"
| "py_lower rt (JNum n) = Inl AttributeError"
| "py_lower rt (JArr xs) = Inl AttributeError"
| "py_lower rt (JObj kvs) = Inl AttributeError"

text \<open>
  \<^verbatim>\<open>x[0].upper()\<close>, the avatar letter of a card: the first character of a non-empty string,
  upper-cased. On an empty string or list the index raises \<^verbatim>\<open>IndexError\<close>; a dict has no
  key \<open>0\<close>; the other values are not subscriptable. The first element of a list has the
  method \<^verbatim>\<open>upper\<close> only when it is a string.
\<close>

fun first_upper :: "runtime \<Rightarrow> json \<Rightarrow> py_error + string" where
  "first_upper rt (JStr s) =
     (case s of [] \<Rightarrow> Inl IndexError | c # cs \<Rightarrow> Inr (str_upper rt [c]))"
| "first_upper rt (JArr xs) =
     (case xs of
        [] \<Rightarrow> Inl IndexError
      | JStr t # ys \<Rightarrow> Inr (str_upper rt t)
      | y # ys \<Rightarrow> Inl AttributeError)"
| "first_upper rt (JObj kvs) = Inl KeyError"
| "first_upper rt JNull = Inl TypeError"
| "first_upper rt (JBool b) = Inl TypeError"
| "first_upper rt (JNum n) = Inl TypeError"

text \<open>
  A text has a Jinja delimiter when it contains the start of an expression, of a statement
  or of a comment. A value pasted by an f-string is pasted as \<^verbatim>\<open>str(value)\<close>: a string as
  it is, a number, a truth value or \<^verbatim>\<open>None\<close> as a word without braces, a list or a dict
  with its strings inside.
\<close>

definition templated :: "string \<Rightarrow> bool" where
  "templated t \<longleftrightarrow> sublist ''{{'' t \<or> sublist ''{%'' t \<or> sublist ''{#'' t"

fun json_templated :: "json \<Rightarrow> bool" where
  "json_templated (JStr s) = templated s"
| "json_templated (JArr xs) = list_ex json_templated xs"
| "json_templated (JObj kvs) =
     (list_ex templated (map fst kvs) \<or> list_ex json_templated (map snd kvs))"
| "json_templated JNull = False"
| "json_templated (JBool b) = False"
| "json_templated (JNum n) = False"

text \<open>
  The texts of a card that reach the template. The card of the user list shows the avatar
  letter, name, email, id and \<^verbatim>\<open>created_at[:10]\<close>; the card of a search result shows the
  first three; the card of a message shows the avatar letter, author,
  \<^verbatim>\<open>created_at[:19]\<close> with its \<^verbatim>\<open>T\<close> replaced by a blank (which neither makes nor breaks
  a delimiter) and content.
\<close>

definition list_card_templated :: "string \<times> user \<Rightarrow> bool" where
  "list_card_templated c \<longleftrightarrow>
     templated (fst c) \<or> json_templated (user_name (snd c))
     \<or> json_templated (user_email (snd c)) \<or> templated (take 10 (user_created_at (snd c)))"

definition result_card_templated :: "string \<times> user \<Rightarrow> bool" where
  "result_card_templated c \<longleftrightarrow>
     templated (fst c) \<or> json_templated (user_name (snd c))
     \<or> json_templated (user_email (snd c))"

definition message_card_templated :: "string \<times> message \<Rightarrow> bool" where
  "message_card_templated c \<longleftrightarrow>
     templated (fst c) \<or> json_templated (msg_author (snd c))
     \<or> templated (take 19 (msg_created_at (snd c))) \<or> json_templated (msg_content (snd c))"

text \<open>
  Whether the template of a page has a Jinja delimiter. The numbers pasted into the home
  page, the not-found page and the counts have none; the prompt page has no pasted text.
\<close>

fun templated_page :: "content \<Rightarrow> bool" where
  "templated_page (HealthPage t env) = (templated t \<or> templated env)"
| "templated_page (StatsPage nu nm v t env) = (templated t \<or> templated env)"
| "templated_page (UsersPage n cards) = list_ex list_card_templated cards"
| "templated_page (UserDetailPage a n m u) =
     (templated a \<or> templated n \<or> templated m \<or> templated (take 19 (user_created_at u)))"
| "templated_page (MessagesPage n cards) = list_ex message_card_templated cards"
| "templated_page (SearchResultsPage q n cards) =
     (templated q \<or> list_ex result_card_templated cards)"
| "templated_page (HomePage v nu nm) = False"
| "templated_page (UserNotFoundPage uid) = False"
| "templated_page SearchPromptPage = False"
| "templated_page (ErrorJson msg) = False"
| "templated_page (UserCreated u) = False"
| "templated_page UserDeleted = False"
| "templated_page (MessageCreated m) = False"
| "templated_page NotFoundJson = False"
| "templated_page InternalErrorJson = False"
| "templated_page MethodNotAllowedPage = False"
| "templated_page HttpErrorPage = False"
| "templated_page OptionsBody = False"
| "templated_page (Rendered page) = False"

text \<open>
  \<^verbatim>\<open>render_template_string(html)\<close>: a template without a delimiter renders as itself and
  nothing else happens; any other template is the engine's.
\<close>

definition render_template_string ::
  "runtime \<Rightarrow> data_store \<Rightarrow> content \<Rightarrow> data_store \<times> (py_error + content)" where
  "render_template_string rt s page =
     (if templated_page page then
        (case jinja rt s page of
           (s', Inl err) \<Rightarrow> (s', Inl err)
         | (s', Inr out) \<Rightarrow> (s', Inr (Rendered out)))
      else (s, Inr page))"

text \<open>The view's \<^verbatim>\<open>return render_template_string(html), status\<close> (200 when left out).\<close>

definition with_status :: "nat \<Rightarrow> data_store \<times> (py_error + content) \<Rightarrow> outcome" where
  "with_status st x =
     (case x of (s', Inl err) \<Rightarrow> (s', Inl err) | (s', Inr body) \<Rightarrow> (s', Inr (body, st)))"

subsection \<open>Middleware and error handlers\<close>

definition log_request :: "data_store \<Rightarrow> data_store" where
  "log_request s = s\<lparr>visits := visits s + 1\<rparr>"

definition not_found :: response where
  "not_found = (NotFoundJson, 404)"

definition internal_error :: response where
  "internal_error = (InternalErrorJson, 500)"

definition valid_key :: "env \<Rightarrow> string" where
  "valid_key e = (case API_KEY e of None \<Rightarrow> ''demo-api-key'' | Some k \<Rightarrow> k)"

definition require_api_key ::
  "(runtime \<Rightarrow> env \<Rightarrow> data_store \<Rightarrow> request \<Rightarrow> outcome)
     \<Rightarrow> runtime \<Rightarrow> env \<Rightarrow> data_store \<Rightarrow> request \<Rightarrow> outcome" where
  "require_api_key f rt e s r =
     (if x_api_key r \<noteq> Some (valid_key e)
      then (s, Inr (ErrorJson ''Invalid or missing API key'', 401))
      else f rt e s r)"

text \<open>
  Evaluating an expression that may raise inside a handler: the exception leaves the
  handler with the store as it is at that point.
\<close>

definition propagate :: "py_error + 'a \<Rightarrow> data_store \<Rightarrow> ('a \<Rightarrow> outcome) \<Rightarrow> outcome" where
  "propagate x s k = (case x of Inl err \<Rightarrow> (s, Inl err) | Inr v \<Rightarrow> k v)"

text \<open>
  What \<^verbatim>\<open>request.get_json()\<close> does to the request when it does not return: the error
  response of Flask.
\<close>

definition json_refused :: "data_store \<Rightarrow> nat \<Rightarrow> outcome" where
  "json_refused s st = (s, Inr (HttpErrorPage, st))"

subsection \<open>Views\<close>

definition default_environment :: "env \<Rightarrow> string" where
  "default_environment e = (case ENVIRONMENT e of None \<Rightarrow> ''development'' | Some v \<Rightarrow> v)"

definition home :: "runtime \<Rightarrow> data_store \<Rightarrow> outcome" where
  "home rt s =
     with_status 200
       (render_template_string rt s
          (HomePage (visits s) (length (users s)) (length (messages s))))"

definition health_check :: "runtime \<Rightarrow> env \<Rightarrow> data_store \<Rightarrow> outcome" where
  "health_check rt e s =
     with_status 200
       (render_template_string rt s (HealthPage (utcnow e) (default_environment e)))"

definition get_stats :: "runtime \<Rightarrow> env \<Rightarrow> data_store \<Rightarrow> outcome" where
  "get_stats rt e s =
     with_status 200
       (render_template_string rt s
          (StatsPage (length (users s)) (length (messages s)) (visits s)
             (utcnow_strftime e) (default_environment e)))"

text \<open>The card of a user: \<^verbatim>\<open>user['name'][0].upper()\<close> and the record's fields.\<close>

definition user_card :: "runtime \<Rightarrow> user \<Rightarrow> py_error + (string \<times> user)" where
  "user_card rt u =
     (case first_upper rt (user_name u) of Inl e \<Rightarrow> Inl e | Inr a \<Rightarrow> Inr (a, u))"

text \<open>
  The \<^verbatim>\<open>POST\<close> branch of \<^verbatim>\<open>users()\<close> after \<^verbatim>\<open>data = request.get_json()\<close>. The test
  \<^verbatim>\<open>not data or 'name' not in data or 'email' not in data\<close> is evaluated left to right
  and stops at the first true disjunct.
\<close>

definition users_post :: "env \<Rightarrow> data_store \<Rightarrow> json \<Rightarrow> outcome" where
  "users_post e s data =
     (if \<not> truthy data then (s, Inr (ErrorJson ''Name and email are required'', 400))
      else propagate (py_in ''name'' data) s (\<lambda>has_name.
        if \<not> has_name then (s, Inr (ErrorJson ''Name and email are required'', 400))
        else propagate (py_in ''email'' data) s (\<lambda>has_email.
          if \<not> has_email then (s, Inr (ErrorJson ''Name and email are required'', 400))
          else propagate (py_getitem data ''name'') s (\<lambda>n.
               propagate (py_getitem data ''email'') s (\<lambda>m.
                 let u = \<lparr>user_id = int (length (users s)) + 1, user_name = n,
                          user_email = m, user_created_at = utcnow e\<rparr>
                 in (s\<lparr>users := users s @ [u]\<rparr>, Inr (UserCreated u, 201)))))))"

text \<open>
  \<^verbatim>\<open>users()\<close>, routed for \<^verbatim>\<open>GET\<close> and \<^verbatim>\<open>POST\<close>. With any other method (Flask also
  routes \<^verbatim>\<open>HEAD\<close> here) neither branch is taken and the function returns \<^verbatim>\<open>None\<close>, which
  Flask refuses with a \<^verbatim>\<open>TypeError\<close>.
\<close>

definition users_handler :: "runtime \<Rightarrow> env \<Rightarrow> data_store \<Rightarrow> request \<Rightarrow> outcome" where
  "users_handler rt e s r =
     (if meth r = GET then
        (if users s \<noteq> [] then
           propagate (comprehension (user_card rt) (users s)) s (\<lambda>cards.
             with_status 200
               (render_template_string rt s (UsersPage (length (users s)) cards)))
         else with_status 200
                (render_template_string rt s (UsersPage (length (users s)) [])))
      else if meth r = POST then
        (case get_json r of
           NotJson \<Rightarrow> json_refused s 415
         | Malformed \<Rightarrow> json_refused s 400
         | Parsed data \<Rightarrow> users_post e s data)
      else (s, Inl TypeError))"

text \<open>
  \<^verbatim>\<open>user_detail(user_id)\<close>: the first user with the id is looked up before the method is
  examined, and the 404 page is returned for either method when there is none. A stored
  user is a dict of four items, so \<^verbatim>\<open>not user\<close> holds exactly when the lookup gave
  \<^verbatim>\<open>None\<close>.
\<close>

definition user_detail ::
  "runtime \<Rightarrow> env \<Rightarrow> data_store \<Rightarrow> request \<Rightarrow> nat \<Rightarrow> outcome" where
  "user_detail rt e s r uid =
     (case find (\<lambda>u. user_id u = int uid) (users s) of
        None \<Rightarrow> with_status 404 (render_template_string rt s (UserNotFoundPage uid))
      | Some u \<Rightarrow>
          if meth r = GET then
            propagate (first_upper rt (user_name u)) s (\<lambda>a.
            propagate (str_concat (user_name u)) s (\<lambda>n.
            propagate (str_concat (user_email u)) s (\<lambda>m.
              with_status 200 (render_template_string rt s (UserDetailPage a n m u)))))
          else if meth r = DELETE then
            (s\<lparr>users := filter (\<lambda>u. user_id u \<noteq> int uid) (users s)\<rparr>,
             Inr (UserDeleted, 200))
          else (s, Inl TypeError))"

definition message_card :: "runtime \<Rightarrow> message \<Rightarrow> py_error + (string \<times> message)" where
  "message_card rt m =
     (case first_upper rt (msg_author m) of Inl e \<Rightarrow> Inl e | Inr a \<Rightarrow> Inr (a, m))"

definition messages_post :: "env \<Rightarrow> data_store \<Rightarrow> json \<Rightarrow> outcome" where
  "messages_post e s data =
     (if \<not> truthy data then (s, Inr (ErrorJson ''Content is required'', 400))
      else propagate (py_in ''content'' data) s (\<lambda>has_content.
        if \<not> has_content then (s, Inr (ErrorJson ''Content is required'', 400))
        else propagate (py_getitem data ''content'') s (\<lambda>c.
             propagate (py_get data ''author'' (JStr ''Anonymous'')) s (\<lambda>a.
               let m = \<lparr>msg_id = int (length (messages s)) + 1, msg_content = c,
                        msg_author = a, msg_created_at = utcnow e\<rparr>
               in (s\<lparr>messages := messages s @ [m]\<rparr>, Inr (MessageCreated m, 201))))))"

text \<open>\<^verbatim>\<open>messages()\<close> itself, the function that \<^verbatim>\<open>require_api_key\<close> wraps.\<close>

definition messages_handler :: "runtime \<Rightarrow> env \<Rightarrow> data_store \<Rightarrow> request \<Rightarrow> outcome" where
  "messages_handler rt e s r =
     (if meth r = GET then
        (if messages s \<noteq> [] then
           propagate (comprehension (message_card rt) (rev (messages s))) s (\<lambda>cards.
             with_status 200
               (render_template_string rt s (MessagesPage (length (messages s)) cards)))
         else with_status 200
                (render_template_string rt s (MessagesPage (length (messages s)) [])))
      else if meth r = POST then
        (case get_json r of
           NotJson \<Rightarrow> json_refused s 415
         | Malformed \<Rightarrow> json_refused s 400
         | Parsed data \<Rightarrow> messages_post e s data)
      else (s, Inl TypeError))"

text \<open>The condition of the search comprehension, \<^verbatim>\<open>query in u['name'].lower()\<close>.\<close>

definition name_matches :: "runtime \<Rightarrow> string \<Rightarrow> user \<Rightarrow> py_error + bool" where
  "name_matches rt query u =
     (case py_lower rt (user_name u) of Inl e \<Rightarrow> Inl e | Inr n \<Rightarrow> Inr (sublist query n))"

definition search :: "runtime \<Rightarrow> data_store \<Rightarrow> request \<Rightarrow> outcome" where
  "search rt s r =
     (let query = str_lower rt (case args_q r of None \<Rightarrow> [] | Some q \<Rightarrow> q) in
      if query = [] then with_status 200 (render_template_string rt s SearchPromptPage)
      else propagate (comprehension_if (name_matches rt query) (users s)) s (\<lambda>results.
        if results \<noteq> [] then
          propagate (comprehension (user_card rt) results) s (\<lambda>cards.
            with_status 200
              (render_template_string rt s
                 (SearchResultsPage query (length results) cards)))
        else with_status 200
               (render_template_string rt s (SearchResultsPage query (length results) []))))"

subsection \<open>Dispatch of one request\<close>

text \<open>The \<^verbatim>\<open>methods\<close> argument of each \<^verbatim>\<open>@app.route\<close>.\<close>

fun methods :: "route \<Rightarrow> http_method list" where
  "methods Home = [GET]"
| "methods Health = [GET]"
| "methods Stats = [GET]"
| "methods Users = [GET, POST]"
| "methods (UserDetail uid) = [GET, DELETE]"
| "methods Messages = [GET, POST]"
| "methods Search = [GET]"
| "methods NoRoute = []"

fun view :: "runtime \<Rightarrow> env \<Rightarrow> data_store \<Rightarrow> request \<Rightarrow> route \<Rightarrow> outcome" where
  "view rt e s r Home = home rt s"
| "view rt e s r Health = health_check rt e s"
| "view rt e s r Stats = get_stats rt e s"
| "view rt e s r Users = users_handler rt e s r"
| "view rt e s r (UserDetail uid) = user_detail rt e s r uid"
| "view rt e s r Messages = require_api_key messages_handler rt e s r"
| "view rt e s r Search = search rt s r"
| "view rt e s r NoRoute = (s, Inr not_found)"

text \<open>
  Flask's dispatch after the \<^verbatim>\<open>before_request\<close> functions have run: an unmatched path
  goes to the 404 handler, \<^verbatim>\<open>OPTIONS\<close> is answered by Flask, \<^verbatim>\<open>HEAD\<close> is routed wherever
  \<^verbatim>\<open>GET\<close> is, and a method outside the rule's list is refused with 405.
\<close>

definition dispatch_request :: "runtime \<Rightarrow> env \<Rightarrow> data_store \<Rightarrow> request \<Rightarrow> outcome" where
  "dispatch_request rt e s r =
     (if path r = NoRoute then (s, Inr not_found)
      else if meth r = OPTIONS then (s, Inr (OptionsBody, 200))
      else if meth r = HEAD \<or> meth r \<in> set (methods (path r)) then view rt e s r (path r)
      else (s, Inr (MethodNotAllowedPage, 405)))"

text \<open>
  One request from arrival to response: \<^verbatim>\<open>log_request\<close> runs first, for every request;
  an exception that escapes the view is answered by \<^verbatim>\<open>internal_error\<close>. The headers that
  \<^verbatim>\<open>add_security_headers\<close> sets are the same on every response and are left out.
\<close>

definition handle_request ::
  "runtime \<Rightarrow> env \<Rightarrow> data_store \<Rightarrow> request \<Rightarrow> data_store \<times> response" where
  "handle_request rt e s r =
     (case dispatch_request rt e (log_request s) r of
        (s', Inl err) \<Rightarrow> (s', internal_error)
      | (s', Inr resp) \<Rightarrow> (s', resp))"

text \<open>The stores that the process can be in: any number of requests after start-up.\<close>

inductive reachable :: "runtime \<Rightarrow> data_store \<Rightarrow> bool" for rt :: runtime where
  start: "reachable rt init_store"
| step: "reachable rt s \<Longrightarrow> reachable rt (fst (handle_request rt e s r))"

subsection \<open>A concrete runtime, environment and requests\<close>

text \<open>
  \<^verbatim>\<open>str.lower\<close> and \<^verbatim>\<open>str.upper\<close> as they are on ASCII text, which is what the concrete
  requests below carry.
\<close>

definition ascii_lower_char :: "char \<Rightarrow> char" where
  "ascii_lower_char c =
     (let n = (of_char c :: nat) in if 65 \<le> n \<and> n \<le> 90 then char_of (n + 32) else c)"

definition ascii_upper_char :: "char \<Rightarrow> char" where
  "ascii_upper_char c =
     (let n = (of_char c :: nat) in if 97 \<le> n \<and> n \<le> 122 then char_of (n - 32) else c)"

definition ascii_lower :: "string \<Rightarrow> string" where
  "ascii_lower s = map ascii_lower_char s"

definition ascii_upper :: "string \<Rightarrow> string" where
  "ascii_upper s = map ascii_upper_char s"

text \<open>
  Two queries that are Jinja statements. Both are in lower case, so the search pastes them
  into the template as they are. Jinja resolves \<open>a.b\<close> as the attribute \<open>b\<close> of \<open>a\<close> or,
  when there is none, as the item \<open>a['b']\<close>: \<open>lipsum\<close> is a global function of every
  Jinja environment, its \<^verbatim>\<open>__globals__\<close> hold the module \<^verbatim>\<open>os\<close>, and \<^verbatim>\<open>os.sys.modules\<close>
  holds app.py, run as a script, under \<^verbatim>\<open>__main__\<close>. So the first statement calls
  \<^verbatim>\<open>data_store.update(visits=0)\<close> and the second \<^verbatim>\<open>data_store['messages'].pop(0)\<close>. A
  \<^verbatim>\<open>set\<close> statement renders as nothing.
\<close>

definition update_visits :: string where
  "update_visits =
     ''{% set x = lipsum.__globals__.os.sys.modules.__main__.data_store.update(visits=0) %}''"

definition pop_message :: string where
  "pop_message =
     ''{% set x = lipsum.__globals__.os.sys.modules.__main__.data_store.messages.pop(0) %}''"

text \<open>
  The engine on the results page of these two queries: it runs the statement on the store
  and renders the page with nothing in place of the query. The theorems below consult it
  on no other page; there it raises.
\<close>

definition scripted :: "data_store \<Rightarrow> content \<Rightarrow> data_store \<times> (py_error + content)" where
  "scripted s page =
     (case page of
        SearchResultsPage q n cards \<Rightarrow>
          if q = update_visits then (s\<lparr>visits := 0\<rparr>, Inr (SearchResultsPage [] n cards))
          else if q = pop_message then
            (case messages s of
               [] \<Rightarrow> (s, Inl IndexError)
             | m # ms \<Rightarrow> (s\<lparr>messages := ms\<rparr>, Inr (SearchResultsPage [] n cards)))
          else (s, Inl TemplateError)
      | _ \<Rightarrow> (s, Inl TemplateError))"

definition rt0 :: runtime where
  "rt0 = \<lparr>str_lower = ascii_lower, str_upper = ascii_upper, jinja = scripted\<rparr>"

text \<open>
  An environment without \<^verbatim>\<open>API_KEY\<close> and \<^verbatim>\<open>ENVIRONMENT\<close>, a request with no credential, no
  body and no query, and the same request with a JSON body, with the credential header or
  with a query.
\<close>

definition env0 :: env where
  "env0 = \<lparr>API_KEY = None, ENVIRONMENT = None, utcnow = ''2024-01-01T00:00:00'',
            utcnow_strftime = ''2024-01-01 00:00:00''\<rparr>"

definition req :: "http_method \<Rightarrow> route \<Rightarrow> request" where
  "req m p = \<lparr>meth = m, path = p, x_api_key = None, get_json = NotJson, args_q = None\<rparr>"

definition post_json :: "route \<Rightarrow> json \<Rightarrow> request" where
  "post_json p d = (req POST p)\<lparr>get_json := Parsed d\<rparr>"

definition with_key :: "string \<Rightarrow> request \<Rightarrow> request" where
  "with_key k r = r\<lparr>x_api_key := Some k\<rparr>"

definition search_req :: "string option \<Rightarrow> request" where
  "search_req q = (req GET Search)\<lparr>args_q := q\<rparr>"

definition message_req :: "string \<Rightarrow> request" where
  "message_req c = with_key ''demo-api-key'' (post_json Messages (JObj [(''content'', JStr c)]))"

definition list_req :: request where
  "list_req = with_key ''demo-api-key'' (req GET Messages)"

text \<open>The store after a sequence of requests, one after the other.\<close>

definition run :: "runtime \<Rightarrow> env \<Rightarrow> data_store \<Rightarrow> request list \<Rightarrow> data_store" where
  "run rt e s rs = foldl (\<lambda>s' r. fst (handle_request rt e s' r)) s rs"

text \<open>
  The body of the specification's example, \<^verbatim>\<open>{name: "Alice", email: "a@x.com"}\<close>, the
  example store with the users Alice, alice2 and Bob, and two bodies that the creation
  handlers accept: a user whose name is the number 5 and a message whose author is the
  empty string.
\<close>

definition alice :: json where
  "alice = JObj [(''name'', JStr ''Alice''), (''email'', JStr ''a@x.com'')]"

definition named :: "int \<Rightarrow> string \<Rightarrow> user" where
  "named i n = \<lparr>user_id = i, user_name = JStr n, user_email = JStr ''e@x.com'',
                user_created_at = ''2024-01-01T00:00:00''\<rparr>"

definition three_users :: data_store where
  "three_users =
     \<lparr>visits = 3, users = [named 1 ''Alice'', named 2 ''alice2'', named 3 ''Bob''],
      messages = []\<rparr>"

definition numeric_name :: json where
  "numeric_name = JObj [(''name'', JNum 5), (''email'', JStr ''e@x.com'')]"

definition empty_author :: json where
  "empty_author = JObj [(''content'', JStr ''hi''), (''author'', JStr [])]"

definition empty_author_store :: data_store where
  "empty_author_store =
     fst (handle_request rt0 env0 init_store
            (with_key ''demo-api-key'' (post_json Messages empty_author)))"

subsection \<open>Notions used in the statements\<close>

text \<open>
  The users that the specification's search selects for a query \<open>q\<close>: those whose name, a
  string, contains \<open>q\<close> as a substring once both are lower-cased.
\<close>

definition name_contains :: "runtime \<Rightarrow> string \<Rightarrow> user \<Rightarrow> bool" where
  "name_contains rt q u =
     (case user_name u of
        JStr n \<Rightarrow> sublist (str_lower rt q) (str_lower rt n)
      | _ \<Rightarrow> False)"

text \<open>
  How one request can change the list of messages when the template engine is kept out:
  not at all, or by one message at the end whose id is the old length plus one.
\<close>

definition appended :: "message list \<Rightarrow> message list \<Rightarrow> bool" where
  "appended old new \<longleftrightarrow>
     new = old \<or> (\<exists>m. new = old @ [m] \<and> msg_id m = int (length old) + 1)"

text \<open>An engine that leaves the store as it finds it, whatever it renders or raises.\<close>

definition store_preserving :: "runtime \<Rightarrow> bool" where
  "store_preserving rt \<longleftrightarrow> (\<forall>s page. fst (jinja rt s page) = s)"

section \<open>Properties\<close>

subsection \<open>One request through the dispatcher\<close>

lemma handle_request_store:
  "fst (handle_request rt e s r) = fst (dispatch_request rt e (log_request s) r)"
  by (simp add: handle_request_def split: prod.splits sum.splits)

lemma handle_request_routed:
  assumes "path r \<noteq> NoRoute" and "meth r \<noteq> OPTIONS" and "meth r \<in> set (methods (path r))"
  shows "handle_request rt e s r =
     (case view rt e (log_request s) r (path r) of
        (s', Inl err) \<Rightarrow> (s', internal_error)
      | (s', Inr resp) \<Rightarrow> (s', resp))"
  using assms by (simp add: handle_request_def dispatch_request_def)

lemma with_status_plain:
  assumes "\<not> templated_page page"
  shows "with_status st (render_template_string rt s page) = (s, Inr (page, st))"
  using assms by (simp add: with_status_def render_template_string_def)

lemma fst_with_status: "fst (with_status st x) = fst x"
  by (cases x, cases "snd x") (simp_all add: with_status_def)

lemma fst_render: "fst (render_template_string rt s page) =
    (if templated_page page then fst (jinja rt s page) else s)"
  by (simp add: render_template_string_def split: prod.splits sum.splits)

lemma render_store:
  assumes "store_preserving rt"
  shows "fst (with_status st (render_template_string rt s page)) = s"
  using assms by (simp add: fst_with_status fst_render store_preserving_def)

text \<open>What a rendered page can be: the page itself, or the engine's rendering.\<close>

lemma with_status_render_cases:
  assumes "with_status st0 (render_template_string rt s page) = (s', Inr (body, st))"
  shows "body = page \<or> (\<exists>out. body = Rendered out)"
  using assms
  by (auto simp: with_status_def render_template_string_def split: if_splits prod.splits sum.splits)

subsection \<open>Deleting a user\<close>

text \<open>
  C1, as the code has it. A \<^verbatim>\<open>DELETE\<close> of \<^verbatim>\<open>/api/users/<id>\<close> whose id no stored user has is
  answered by the not-found page with status 404, the same as a \<^verbatim>\<open>GET\<close>; the store is
  left as it was, apart from the visit counter.
\<close>

theorem delete_unknown_user_not_found:
  assumes "meth r = DELETE" and "path r = UserDetail uid"
    and "\<forall>u\<in>set (users s). user_id u \<noteq> int uid"
  shows "handle_request rt e s r =
           (s\<lparr>visits := visits s + 1\<rparr>, (UserNotFoundPage uid, 404))"
proof -
  have "find (\<lambda>u. user_id u = int uid) (users (log_request s)) = None"
    using assms(3) by (simp add: find_None_iff log_request_def)
  then have "user_detail rt e (log_request s) r uid =
      (log_request s, Inr (UserNotFoundPage uid, 404))"
    by (simp add: user_detail_def with_status_plain)
  then show ?thesis
    using assms(1,2) by (simp add: handle_request_routed log_request_def)
qed

theorem delete_unknown_user_not_found_witness:
  "handle_request rt0 env0 init_store (req DELETE (UserDetail 7)) =
     (init_store\<lparr>visits := 1\<rparr>, (UserNotFoundPage 7, 404))"
  using delete_unknown_user_not_found [of "req DELETE (UserDetail 7)" 7 init_store rt0 env0]
  by (simp add: req_def init_store_def)

text \<open>
  The claim as the specification states it, a 200 with the deletion confirmation, fails
  on the empty store for the id 7.
\<close>

theorem delete_unknown_user_counterexample:
  "snd (handle_request rt0 env0 init_store (req DELETE (UserDetail 7))) \<noteq> (UserDeleted, 200)
   \<and> snd (snd (handle_request rt0 env0 init_store (req DELETE (UserDetail 7)))) = 404"
  by (simp add: handle_request_def dispatch_request_def log_request_def user_detail_def
        with_status_plain req_def init_store_def)

subsection \<open>Creating a user\<close>

lemma propagate_eq_InrD:
  "propagate x s k = (s', Inr resp) \<Longrightarrow> \<exists>v. x = Inr v \<and> k v = (s', Inr resp)"
  by (cases x) (simp_all add: propagate_def)

lemma map_of_key: "map_of kvs k = Some v \<Longrightarrow> k \<in> fst ` set kvs"
  by (metis domI dom_map_of_conv_image_fst)

lemma users_post_created:
  assumes "map_of kvs ''name'' = Some n" and "map_of kvs ''email'' = Some m"
  shows "users_post e s (JObj kvs) =
     (s\<lparr>users := users s @
          [\<lparr>user_id = int (length (users s)) + 1, user_name = n, user_email = m,
            user_created_at = utcnow e\<rparr>]\<rparr>,
      Inr (UserCreated \<lparr>user_id = int (length (users s)) + 1, user_name = n, user_email = m,
            user_created_at = utcnow e\<rparr>, 201))"
proof -
  have "kvs \<noteq> []" using assms(1) by auto
  moreover have "''name'' \<in> fst ` set kvs" "''email'' \<in> fst ` set kvs"
    using assms by (auto dest: map_of_key)
  ultimately show ?thesis
    using assms by (simp add: users_post_def propagate_def Let_def)
qed

lemma users_post_missing:
  assumes "''name'' \<notin> fst ` set kvs \<or> ''email'' \<notin> fst ` set kvs"
  shows "users_post e s (JObj kvs) = (s, Inr (ErrorJson ''Name and email are required'', 400))"
  using assms by (auto simp: users_post_def propagate_def)

lemma users_post_none:
  "users_post e s JNull = (s, Inr (ErrorJson ''Name and email are required'', 400))"
  by (simp add: users_post_def)

text \<open>
  A body that is not an object never changes the store: it is refused with 400 when it is
  falsy or does not contain both words, and otherwise the test or the subscript raises.
\<close>

lemma users_post_not_object:
  assumes "\<forall>kvs. d \<noteq> JObj kvs"
  shows "fst (users_post e s d) = s
       \<and> (snd (users_post e s d) = Inr (ErrorJson ''Name and email are required'', 400)
            \<or> snd (users_post e s d) = Inl TypeError)"
  using assms by (cases d) (auto simp: users_post_def propagate_def)

lemma handle_request_users_post:
  assumes "meth r = POST" and "path r = Users" and "get_json r = Parsed d"
  shows "handle_request rt e s r =
     (case users_post e (log_request s) d of
        (s', Inl err) \<Rightarrow> (s', internal_error)
      | (s', Inr resp) \<Rightarrow> (s', resp))"
  using assms by (simp add: handle_request_routed users_handler_def)

text \<open>
  C2, as the code has it. A \<^verbatim>\<open>POST\<close> to \<^verbatim>\<open>/api/users\<close> without a JSON body does not reach
  the handler's test: \<^verbatim>\<open>get_json()\<close> ends it with status 415. When the body is \<^verbatim>\<open>null\<close>,
  or a JSON object without the key \<^verbatim>\<open>name\<close> or without the key \<^verbatim>\<open>email\<close>, the handler
  answers with status 400. In all these cases the store keeps its users (the whole store
  is the old one with the visit counted). When the body is an object with both keys, the
  record made of the two values, the id and the clock is appended to the users and
  returned with status 201.
\<close>

theorem create_user_validation:
  assumes "meth r = POST" and "path r = Users"
  shows "(get_json r = NotJson
          \<longrightarrow> handle_request rt e s r = (s\<lparr>visits := visits s + 1\<rparr>, (HttpErrorPage, 415)))
       \<and> (get_json r = Parsed JNull
            \<or> (\<exists>kvs. get_json r = Parsed (JObj kvs)
                  \<and> (''name'' \<notin> fst ` set kvs \<or> ''email'' \<notin> fst ` set kvs))
          \<longrightarrow> handle_request rt e s r =
                (s\<lparr>visits := visits s + 1\<rparr>, (ErrorJson ''Name and email are required'', 400)))
       \<and> (\<forall>kvs n m. get_json r = Parsed (JObj kvs) \<and> map_of kvs ''name'' = Some n
              \<and> map_of kvs ''email'' = Some m
          \<longrightarrow> handle_request rt e s r =
                (s\<lparr>visits := visits s + 1,
                   users := users s @
                     [\<lparr>user_id = int (length (users s)) + 1, user_name = n, user_email = m,
                       user_created_at = utcnow e\<rparr>]\<rparr>,
                 (UserCreated \<lparr>user_id = int (length (users s)) + 1, user_name = n,
                       user_email = m, user_created_at = utcnow e\<rparr>, 201)))"
proof (intro conjI impI allI)
  assume "get_json r = NotJson"
  then show "handle_request rt e s r = (s\<lparr>visits := visits s + 1\<rparr>, (HttpErrorPage, 415))"
    using assms
    by (simp add: handle_request_routed users_handler_def json_refused_def log_request_def)
next
  assume "get_json r = Parsed JNull
          \<or> (\<exists>kvs. get_json r = Parsed (JObj kvs)
                \<and> (''name'' \<notin> fst ` set kvs \<or> ''email'' \<notin> fst ` set kvs))"
  then obtain d where d: "get_json r = Parsed d"
    and "users_post e (log_request s) d =
        (log_request s, Inr (ErrorJson ''Name and email are required'', 400))"
    by (auto simp: users_post_none users_post_missing)
  then show "handle_request rt e s r =
              (s\<lparr>visits := visits s + 1\<rparr>, (ErrorJson ''Name and email are required'', 400))"
    using assms by (simp add: handle_request_users_post [OF _ _ d] log_request_def)
next
  fix kvs n m
  assume a: "get_json r = Parsed (JObj kvs) \<and> map_of kvs ''name'' = Some n
            \<and> map_of kvs ''email'' = Some m"
  then have d: "get_json r = Parsed (JObj kvs)" by simp
  from a show "handle_request rt e s r =
              (s\<lparr>visits := visits s + 1,
                 users := users s @
                   [\<lparr>user_id = int (length (users s)) + 1, user_name = n, user_email = m,
                     user_created_at = utcnow e\<rparr>]\<rparr>,
               (UserCreated \<lparr>user_id = int (length (users s)) + 1, user_name = n,
                     user_email = m, user_created_at = utcnow e\<rparr>, 201))"
    using assms
    by (simp add: handle_request_users_post [OF _ _ d] users_post_created)
       (simp add: log_request_def)
qed

theorem create_user_validation_witness:
  "handle_request rt0 env0 init_store (req POST Users) =
     (init_store\<lparr>visits := 1\<rparr>, (HttpErrorPage, 415))
   \<and> handle_request rt0 env0 init_store (post_json Users (JObj [(''name'', JStr ''Alice'')])) =
     (init_store\<lparr>visits := 1\<rparr>, (ErrorJson ''Name and email are required'', 400))
   \<and> handle_request rt0 env0 init_store (post_json Users JNull) =
     (init_store\<lparr>visits := 1\<rparr>, (ErrorJson ''Name and email are required'', 400))
   \<and> handle_request rt0 env0 init_store (post_json Users alice) =
     (\<lparr>visits = 1,
       users = [\<lparr>user_id = 1, user_name = JStr ''Alice'', user_email = JStr ''a@x.com'',
                 user_created_at = utcnow env0\<rparr>],
       messages = []\<rparr>,
      (UserCreated \<lparr>user_id = 1, user_name = JStr ''Alice'', user_email = JStr ''a@x.com'',
                 user_created_at = utcnow env0\<rparr>, 201))"
  using
    create_user_validation [of "req POST Users" rt0 env0 init_store]
    create_user_validation
      [of "post_json Users (JObj [(''name'', JStr ''Alice'')])" rt0 env0 init_store]
    create_user_validation [of "post_json Users JNull" rt0 env0 init_store]
    create_user_validation [of "post_json Users alice" rt0 env0 init_store]
  by (simp add: post_json_def req_def init_store_def alice_def)

text \<open>
  The claim as the specification states it fails for the request without a JSON body,
  which is answered 415, and for the body \<^verbatim>\<open>5\<close>, on which the handler's test raises and
  which is answered 500.
\<close>

theorem create_user_validation_counterexample:
  "snd (handle_request rt0 env0 init_store (req POST Users)) = (HttpErrorPage, 415)
   \<and> snd (handle_request rt0 env0 init_store (post_json Users (JNum 5))) =
       (InternalErrorJson, 500)"
  by code_simp

lemma users_post_UserCreatedD:
  assumes "users_post e s d = (s', Inr (UserCreated u, st))"
  shows "user_id u = int (length (users s)) + 1 \<and> users s' = users s @ [u] \<and> st = 201"
  using assms unfolding users_post_def
  by (auto simp: Let_def split: if_splits dest!: propagate_eq_InrD)

lemma users_handler_UserCreatedD:
  assumes "users_handler rt e s r = (s', Inr (UserCreated u, st))"
  shows "user_id u = int (length (users s)) + 1 \<and> users s' = users s @ [u] \<and> st = 201"
proof (cases "meth r = GET")
  case True
  with assms show ?thesis
    by (auto simp: users_handler_def split: if_splits
          dest!: propagate_eq_InrD with_status_render_cases)
next
  case False
  with assms show ?thesis
    by (auto simp: users_handler_def json_refused_def split: if_splits payload.splits
          dest!: users_post_UserCreatedD)
qed

text \<open>
  C3. In any store, whenever \<^verbatim>\<open>users()\<close> answers with a created user, that user's id is the
  number of users stored before plus one, and the user is the new last element of the
  list. A \<^verbatim>\<open>POST\<close> whose body is an object with both keys is such a creation, in every
  store. On the empty store the first such request creates id 1 and a second one, sent
  right after it, creates id 2.
\<close>

theorem user_id_is_count_plus_one:
  assumes "meth r1 = POST" and "path r1 = Users" and "get_json r1 = Parsed (JObj kvs1)"
    and "map_of kvs1 ''name'' = Some n1" and "map_of kvs1 ''email'' = Some m1"
    and "meth r2 = POST" and "path r2 = Users" and "get_json r2 = Parsed (JObj kvs2)"
    and "map_of kvs2 ''name'' = Some n2" and "map_of kvs2 ''email'' = Some m2"
  shows "(\<forall>s' u st. users_handler rt e s r = (s', Inr (UserCreated u, st))
            \<longrightarrow> user_id u = int (length (users s)) + 1 \<and> users s' = users s @ [u])
       \<and> (\<exists>u. snd (handle_request rt e s r1) = (UserCreated u, 201)
              \<and> user_id u = int (length (users s)) + 1)
       \<and> (\<exists>u1 u2. snd (handle_request rt e1 init_store r1) = (UserCreated u1, 201)
              \<and> user_id u1 = 1
              \<and> snd (handle_request rt e2 (fst (handle_request rt e1 init_store r1)) r2)
                   = (UserCreated u2, 201)
              \<and> user_id u2 = 2)"
proof (intro conjI allI impI)
  fix s' u st
  assume "users_handler rt e s r = (s', Inr (UserCreated u, st))"
  then show "user_id u = int (length (users s)) + 1" "users s' = users s @ [u]"
    by (auto dest: users_handler_UserCreatedD)
next
  show "\<exists>u. snd (handle_request rt e s r1) = (UserCreated u, 201)
              \<and> user_id u = int (length (users s)) + 1"
    using assms(4,5)
    by (simp add: handle_request_users_post [OF assms(1-3)] users_post_created log_request_def)
next
  show "\<exists>u1 u2. snd (handle_request rt e1 init_store r1) = (UserCreated u1, 201)
              \<and> user_id u1 = 1
              \<and> snd (handle_request rt e2 (fst (handle_request rt e1 init_store r1)) r2)
                   = (UserCreated u2, 201)
              \<and> user_id u2 = 2"
    using assms(4,5,9,10)
    by (simp add: handle_request_users_post [OF assms(1-3)]
          handle_request_users_post [OF assms(6-8)] users_post_created log_request_def
          init_store_def)
qed

theorem user_id_is_count_plus_one_witness:
  "\<exists>u1 u2. snd (handle_request rt0 env0 init_store (post_json Users alice)) =
              (UserCreated u1, 201)
       \<and> user_id u1 = 1
       \<and> snd (handle_request rt0 env0
               (fst (handle_request rt0 env0 init_store (post_json Users alice)))
               (post_json Users alice)) = (UserCreated u2, 201)
       \<and> user_id u2 = 2"
  using user_id_is_count_plus_one
    [of "post_json Users alice" "[(''name'', JStr ''Alice''), (''email'', JStr ''a@x.com'')]"
        "JStr ''Alice''" "JStr ''a@x.com''"
        "post_json Users alice" "[(''name'', JStr ''Alice''), (''email'', JStr ''a@x.com'')]"
        "JStr ''Alice''" "JStr ''a@x.com''" rt0 env0 init_store "post_json Users alice"
        env0 env0]
  by (simp add: post_json_def req_def alice_def)

text \<open>
  C9. The values are not examined: an object whose \<^verbatim>\<open>name\<close> and \<^verbatim>\<open>email\<close> are both the
  empty string passes the test of line 961, and the record with the two empty strings is
  appended and returned with status 201.
\<close>

theorem create_user_empty_strings:
  assumes "meth r = POST" and "path r = Users" and "get_json r = Parsed (JObj kvs)"
    and "map_of kvs ''name'' = Some (JStr [])" and "map_of kvs ''email'' = Some (JStr [])"
  shows "handle_request rt e s r =
     (s\<lparr>visits := visits s + 1,
        users := users s @
          [\<lparr>user_id = int (length (users s)) + 1, user_name = JStr [], user_email = JStr [],
            user_created_at = utcnow e\<rparr>]\<rparr>,
      (UserCreated \<lparr>user_id = int (length (users s)) + 1, user_name = JStr [],
            user_email = JStr [], user_created_at = utcnow e\<rparr>, 201))"
  using assms(4,5)
  by (simp add: handle_request_users_post [OF assms(1-3)] users_post_created)
     (simp add: log_request_def)

theorem create_user_empty_strings_witness:
  "handle_request rt0 env0 init_store
     (post_json Users (JObj [(''name'', JStr []), (''email'', JStr [])])) =
   (\<lparr>visits = 1,
     users = [\<lparr>user_id = 1, user_name = JStr [], user_email = JStr [],
               user_created_at = utcnow env0\<rparr>],
     messages = []\<rparr>,
    (UserCreated \<lparr>user_id = 1, user_name = JStr [], user_email = JStr [],
               user_created_at = utcnow env0\<rparr>, 201))"
  using create_user_empty_strings
    [of "post_json Users (JObj [(''name'', JStr []), (''email'', JStr [])])"
        "[(''name'', JStr []), (''email'', JStr [])]" rt0 env0 init_store]
  by (simp add: post_json_def req_def init_store_def)

subsection \<open>The messages endpoint: credential and creation\<close>

lemma handle_request_messages_denied:
  assumes "path r = Messages" and "meth r = GET \<or> meth r = POST"
    and "x_api_key r \<noteq> Some (valid_key e)"
  shows "handle_request rt e s r =
     (s\<lparr>visits := visits s + 1\<rparr>, (ErrorJson ''Invalid or missing API key'', 401))"
  using assms by (auto simp: handle_request_routed require_api_key_def log_request_def)

text \<open>
  C5. A \<^verbatim>\<open>GET\<close> or \<^verbatim>\<open>POST\<close> of \<^verbatim>\<open>/api/messages\<close> whose \<^verbatim>\<open>X-API-Key\<close> header is absent, or is
  not the value of \<^verbatim>\<open>API_KEY\<close> (the literal \<^verbatim>\<open>demo-api-key\<close> when the variable is unset), is
  answered with status 401 and the store keeps its messages. The decorator gives that
  answer whatever function it wraps, so the wrapped handler has no part in it.
\<close>

theorem messages_require_api_key:
  assumes "path r = Messages" and "meth r = GET \<or> meth r = POST"
    and "x_api_key r = None \<or> (\<exists>k. x_api_key r = Some k \<and> k \<noteq> valid_key e)"
  shows "handle_request rt e s r =
           (s\<lparr>visits := visits s + 1\<rparr>, (ErrorJson ''Invalid or missing API key'', 401))
       \<and> messages (fst (handle_request rt e s r)) = messages s
       \<and> require_api_key f rt e s r = (s, Inr (ErrorJson ''Invalid or missing API key'', 401))
       \<and> valid_key e = (case API_KEY e of None \<Rightarrow> ''demo-api-key'' | Some k \<Rightarrow> k)"
proof -
  have "x_api_key r \<noteq> Some (valid_key e)" using assms(3) by auto
  then show ?thesis
    using assms(1,2)
    by (simp add: handle_request_messages_denied require_api_key_def valid_key_def)
qed

theorem messages_require_api_key_witness:
  "handle_request rt0 env0 init_store (post_json Messages (JObj [(''content'', JStr ''hi'')])) =
     (init_store\<lparr>visits := 1\<rparr>, (ErrorJson ''Invalid or missing API key'', 401))
   \<and> handle_request rt0 env0 init_store (with_key ''wrong'' (req GET Messages)) =
     (init_store\<lparr>visits := 1\<rparr>, (ErrorJson ''Invalid or missing API key'', 401))
   \<and> valid_key env0 = ''demo-api-key''"
  using messages_require_api_key
      [of "post_json Messages (JObj [(''content'', JStr ''hi'')])" env0 rt0 init_store
          messages_handler]
    messages_require_api_key
      [of "with_key ''wrong'' (req GET Messages)" env0 rt0 init_store messages_handler]
  by (simp add: post_json_def with_key_def req_def init_store_def valid_key_def env0_def)

lemma messages_post_created:
  assumes "map_of kvs ''content'' = Some c"
  shows "messages_post e s (JObj kvs) =
     (s\<lparr>messages := messages s @
          [\<lparr>msg_id = int (length (messages s)) + 1, msg_content = c,
            msg_author = (case map_of kvs ''author'' of None \<Rightarrow> JStr ''Anonymous'' | Some a \<Rightarrow> a),
            msg_created_at = utcnow e\<rparr>]\<rparr>,
      Inr (MessageCreated \<lparr>msg_id = int (length (messages s)) + 1, msg_content = c,
            msg_author = (case map_of kvs ''author'' of None \<Rightarrow> JStr ''Anonymous'' | Some a \<Rightarrow> a),
            msg_created_at = utcnow e\<rparr>, 201))"
proof -
  have "kvs \<noteq> []" using assms(1) by auto
  moreover have "''content'' \<in> fst ` set kvs"
    using assms by (auto dest: map_of_key)
  ultimately show ?thesis
    using assms by (simp add: messages_post_def propagate_def Let_def)
qed

lemma handle_request_messages_post:
  assumes "meth r = POST" and "path r = Messages" and "x_api_key r = Some (valid_key e)"
    and "get_json r = Parsed d"
  shows "handle_request rt e s r =
     (case messages_post e (log_request s) d of
        (s', Inl err) \<Rightarrow> (s', internal_error)
      | (s', Inr resp) \<Rightarrow> (s', resp))"
  using assms by (simp add: handle_request_routed require_api_key_def messages_handler_def)

lemma map_of_None_key: "map_of kvs k = None \<longleftrightarrow> k \<notin> fst ` set kvs"
  by (simp add: map_of_eq_None_iff)

text \<open>
  C6. A \<^verbatim>\<open>POST\<close> of \<^verbatim>\<open>/api/messages\<close> that passes the key check, with an object body that has
  the key \<^verbatim>\<open>content\<close>: without the key \<^verbatim>\<open>author\<close> the message stored and returned has the
  author \<^verbatim>\<open>"Anonymous"\<close>; with the key, it has the value given, whatever that value is.
\<close>

theorem message_author_default:
  assumes "meth r = POST" and "path r = Messages" and "x_api_key r = Some (valid_key e)"
    and "get_json r = Parsed (JObj kvs)" and "map_of kvs ''content'' = Some c"
  shows "(''author'' \<notin> fst ` set kvs \<longrightarrow>
            handle_request rt e s r =
              (s\<lparr>visits := visits s + 1,
                 messages := messages s @
                   [\<lparr>msg_id = int (length (messages s)) + 1, msg_content = c,
                     msg_author = JStr ''Anonymous'', msg_created_at = utcnow e\<rparr>]\<rparr>,
               (MessageCreated \<lparr>msg_id = int (length (messages s)) + 1, msg_content = c,
                     msg_author = JStr ''Anonymous'', msg_created_at = utcnow e\<rparr>, 201)))
       \<and> (\<forall>a. map_of kvs ''author'' = Some a \<longrightarrow>
            handle_request rt e s r =
              (s\<lparr>visits := visits s + 1,
                 messages := messages s @
                   [\<lparr>msg_id = int (length (messages s)) + 1, msg_content = c,
                     msg_author = a, msg_created_at = utcnow e\<rparr>]\<rparr>,
               (MessageCreated \<lparr>msg_id = int (length (messages s)) + 1, msg_content = c,
                     msg_author = a, msg_created_at = utcnow e\<rparr>, 201)))"
  using assms(5)
  by (simp add: handle_request_messages_post [OF assms(1-4)] messages_post_created
        map_of_None_key [symmetric])
     (simp add: log_request_def)

theorem message_author_default_witness:
  "handle_request rt0 env0 init_store (message_req ''hi'') =
   (\<lparr>visits = 1, users = [],
     messages = [\<lparr>msg_id = 1, msg_content = JStr ''hi'', msg_author = JStr ''Anonymous'',
                  msg_created_at = utcnow env0\<rparr>]\<rparr>,
    (MessageCreated \<lparr>msg_id = 1, msg_content = JStr ''hi'', msg_author = JStr ''Anonymous'',
                  msg_created_at = utcnow env0\<rparr>, 201))
   \<and> handle_request rt0 env0 init_store
     (with_key ''demo-api-key''
        (post_json Messages (JObj [(''content'', JStr ''hi''), (''author'', JStr ''Bob'')]))) =
   (\<lparr>visits = 1, users = [],
     messages = [\<lparr>msg_id = 1, msg_content = JStr ''hi'', msg_author = JStr ''Bob'',
                  msg_created_at = utcnow env0\<rparr>]\<rparr>,
    (MessageCreated \<lparr>msg_id = 1, msg_content = JStr ''hi'', msg_author = JStr ''Bob'',
                  msg_created_at = utcnow env0\<rparr>, 201))"
  using message_author_default
      [of "message_req ''hi''" env0 "[(''content'', JStr ''hi'')]" "JStr ''hi''" rt0 init_store]
    message_author_default
      [of "with_key ''demo-api-key''
             (post_json Messages (JObj [(''content'', JStr ''hi''), (''author'', JStr ''Bob'')]))"
          env0 "[(''content'', JStr ''hi''), (''author'', JStr ''Bob'')]" "JStr ''hi''"
          rt0 init_store]
  by (simp add: message_req_def with_key_def post_json_def req_def init_store_def
        valid_key_def env0_def)

subsection \<open>Listing the messages\<close>

lemma comprehension_cards:
  assumes "\<forall>x\<in>set xs. \<exists>a. f x = Inr (a, x)"
  shows "\<exists>ys. comprehension f xs = Inr ys \<and> map snd ys = xs"
  using assms by (induction xs) auto

lemma handle_request_messages_get:
  assumes "path r = Messages" and "meth r = GET" and "x_api_key r = Some (valid_key e)"
  shows "handle_request rt e s r =
     (case messages_handler rt e (log_request s) r of
        (s', Inl err) \<Rightarrow> (s', internal_error)
      | (s', Inr resp) \<Rightarrow> (s', resp))"
  using assms by (simp add: handle_request_routed require_api_key_def)

text \<open>
  When the avatar letter can be computed for every stored author, the page that the
  listing hands to the template engine shows the messages in the reverse of the stored
  order; when that page has no Jinja delimiter it is the response.
\<close>

lemma messages_listing_reversed:
  assumes "meth r = GET"
    and "\<forall>m\<in>set (messages s). \<exists>a. first_upper rt (msg_author m) = Inr a"
  shows "\<exists>cards. map snd cards = rev (messages s)
          \<and> messages_handler rt e s r =
              with_status 200
                (render_template_string rt s (MessagesPage (length (messages s)) cards))"
proof -
  have "\<forall>m\<in>set (rev (messages s)). \<exists>a. message_card rt m = Inr (a, m)"
    using assms(2) by (auto simp: message_card_def)
  then obtain cards where cards: "comprehension (message_card rt) (rev (messages s)) = Inr cards"
      "map snd cards = rev (messages s)"
    using comprehension_cards by blast
  show ?thesis
  proof (cases "messages s = []")
    case True
    then show ?thesis
      using assms(1) by (simp add: messages_handler_def)
  next
    case False
    then show ?thesis
      using assms(1) cards by (auto simp: messages_handler_def propagate_def)
  qed
qed

text \<open>
  C4. The listing does not answer in every store. A message whose author is the empty
  string is accepted by the creation handler; in the store that results, the \<^verbatim>\<open>GET\<close> with
  the valid key raises \<^verbatim>\<open>IndexError\<close> at \<^verbatim>\<open>msg['author'][0]\<close> and is answered with status
  500 instead of the list.
\<close>

theorem messages_listing_empty_author_fails:
  "snd (handle_request rt0 env0 init_store
          (with_key ''demo-api-key'' (post_json Messages empty_author))) =
     (MessageCreated \<lparr>msg_id = 1, msg_content = JStr ''hi'', msg_author = JStr [],
                      msg_created_at = utcnow env0\<rparr>, 201)
   \<and> messages empty_author_store =
       [\<lparr>msg_id = 1, msg_content = JStr ''hi'', msg_author = JStr [],
         msg_created_at = utcnow env0\<rparr>]
   \<and> snd (handle_request rt0 env0 empty_author_store list_req) = (InternalErrorJson, 500)"
  by code_simp

subsection \<open>Search\<close>

lemma comprehension_if_names:
  assumes "\<forall>u\<in>set us. \<exists>n. user_name u = JStr n"
  shows "comprehension_if (name_matches rt (str_lower rt q)) us =
           Inr (filter (name_contains rt q) us)"
  using assms
  by (induction us) (auto simp: name_matches_def name_contains_def)

lemma name_contains_card:
  assumes "name_contains rt q u" and "str_lower rt q \<noteq> []" and "str_lower rt [] = []"
  shows "\<exists>a. user_card rt u = Inr (a, u)"
proof -
  from assms(1) obtain n where n: "user_name u = JStr n"
      "sublist (str_lower rt q) (str_lower rt n)"
    by (auto simp: name_contains_def split: json.splits)
  have "n \<noteq> []"
  proof
    assume "n = []"
    with n(2) assms(3) have "str_lower rt q = []" by simp
    with assms(2) show False by simp
  qed
  then show ?thesis
    using n(1) by (cases n) (simp_all add: user_card_def)
qed

text \<open>
  The search where every stored name is a string, for a runtime whose \<^verbatim>\<open>lower\<close> maps the
  empty string to itself (Python's does, and maps no other string to it, so that the
  lower-cased query is empty exactly when the query is). Without \<^verbatim>\<open>q\<close> or with an empty
  one the answer is the prompt page. With a query whose lower-cased form is not empty, the
  page that the search hands to the template engine shows the lower-cased query and
  exactly the users selected by \<open>name_contains\<close>, in the order of the store; when that
  page has no Jinja delimiter it is the response, with status 200, also when no user is
  selected.
\<close>

lemma search_prompt:
  assumes "str_lower rt [] = []" and "args_q r = None \<or> args_q r = Some []"
  shows "search rt s r = (s, Inr (SearchPromptPage, 200))"
proof -
  have "str_lower rt (case args_q r of None \<Rightarrow> [] | Some q \<Rightarrow> q) = []"
    using assms(2)
  proof
    assume "args_q r = None"
    then show ?thesis by (simp add: assms(1))
  next
    assume "args_q r = Some []"
    then show ?thesis by (simp add: assms(1))
  qed
  then show ?thesis
    unfolding search_def Let_def
    by (simp add: with_status_plain)
qed

lemma search_results:
  assumes e: "str_lower rt [] = []" and a: "args_q r = Some q" and q: "str_lower rt q \<noteq> []"
    and names: "\<forall>u\<in>set (users s). \<exists>n. user_name u = JStr n"
  shows "\<exists>cards. map snd cards = filter (name_contains rt q) (users s)
           \<and> search rt s r =
               with_status 200
                 (render_template_string rt s
                    (SearchResultsPage (str_lower rt q) (length cards) cards))"
proof -
  let ?results = "filter (name_contains rt q) (users s)"
  have res: "comprehension_if (name_matches rt (str_lower rt q)) (users s) = Inr ?results"
    using names by (rule comprehension_if_names)
  have "\<forall>u\<in>set ?results. \<exists>a. user_card rt u = Inr (a, u)"
  proof
    fix u
    assume "u \<in> set ?results"
    then have "name_contains rt q u" by simp
    then show "\<exists>a. user_card rt u = Inr (a, u)"
      using q e by (rule name_contains_card)
  qed
  then obtain cards where cards: "comprehension (user_card rt) ?results = Inr cards"
      "map snd cards = ?results"
    using comprehension_cards by blast
  have len: "length ?results = length cards"
    using cards(2) by (metis length_map)
  have query: "str_lower rt (case args_q r of None \<Rightarrow> [] | Some q \<Rightarrow> q) = str_lower rt q"
    using a by simp
  have "search rt s r =
          with_status 200
            (render_template_string rt s
               (SearchResultsPage (str_lower rt q) (length cards) cards))"
  proof (cases "?results = []")
    case True
    then have "cards = []" using cards(2) by simp
    with True q res show ?thesis
      unfolding search_def Let_def query by (simp add: propagate_def)
  next
    case False
    with q res cards(1) len show ?thesis
      unfolding search_def Let_def query by (simp add: propagate_def)
  qed
  with cards(2) show ?thesis by blast
qed

lemma search_case_insensitive_substring:
  assumes "str_lower rt [] = []"
  shows "(args_q r = None \<or> args_q r = Some [] \<longrightarrow>
            search rt s r = (s, Inr (SearchPromptPage, 200)))
       \<and> (\<forall>q. args_q r = Some q \<and> str_lower rt q \<noteq> []
                \<and> (\<forall>u\<in>set (users s). \<exists>n. user_name u = JStr n) \<longrightarrow>
            (\<exists>cards. map snd cards = filter (name_contains rt q) (users s)
                 \<and> search rt s r =
                     with_status 200
                       (render_template_string rt s
                          (SearchResultsPage (str_lower rt q) (length cards) cards))))"
  using search_prompt [OF assms] search_results [OF assms] by blast

text \<open>
  C7. The search does not answer in every store. The creation handler stores a name that
  is the number 5; in the store that results, a search with a non-empty query raises
  \<^verbatim>\<open>AttributeError\<close> at \<^verbatim>\<open>u['name'].lower()\<close> and is answered with status 500 instead of
  the matching users.
\<close>

theorem search_numeric_name_fails:
  "snd (handle_request rt0 env0 init_store (post_json Users numeric_name)) =
     (UserCreated \<lparr>user_id = 1, user_name = JNum 5, user_email = JStr ''e@x.com'',
                   user_created_at = utcnow env0\<rparr>, 201)
   \<and> snd (handle_request rt0 env0
            (fst (handle_request rt0 env0 init_store (post_json Users numeric_name)))
            (search_req (Some ''a''))) = (InternalErrorJson, 500)"
  by code_simp

subsection \<open>The visit counter\<close>

lemma propagate_visits:
  assumes "\<And>v. x = Inr v \<Longrightarrow> visits (fst (k v)) = visits s"
  shows "visits (fst (propagate x s k)) = visits s"
  using assms by (cases x) (simp_all add: propagate_def)

lemma users_post_visits: "visits (fst (users_post e s d)) = visits s"
  unfolding users_post_def
  by (auto intro!: propagate_visits simp: Let_def)

lemma messages_post_visits: "visits (fst (messages_post e s d)) = visits s"
  unfolding messages_post_def
  by (auto intro!: propagate_visits simp: Let_def)

lemma users_handler_visits:
  assumes "store_preserving rt"
  shows "visits (fst (users_handler rt e s r)) = visits s"
  unfolding users_handler_def
  by (auto intro!: propagate_visits
        simp: users_post_visits json_refused_def render_store [OF assms]
        split: payload.splits)

lemma user_detail_visits:
  assumes "store_preserving rt"
  shows "visits (fst (user_detail rt e s r uid)) = visits s"
  unfolding user_detail_def
  by (auto intro!: propagate_visits simp: render_store [OF assms] split: option.splits)

lemma messages_handler_visits:
  assumes "store_preserving rt"
  shows "visits (fst (messages_handler rt e s r)) = visits s"
  unfolding messages_handler_def
  by (auto intro!: propagate_visits
        simp: messages_post_visits json_refused_def render_store [OF assms]
        split: payload.splits)

lemma search_visits:
  assumes "store_preserving rt"
  shows "visits (fst (search rt s r)) = visits s"
  unfolding search_def
  by (auto intro!: propagate_visits simp: Let_def render_store [OF assms])

lemma view_visits:
  assumes "store_preserving rt"
  shows "visits (fst (view rt e s r p)) = visits s"
  by (cases p)
     (simp_all add: home_def health_check_def get_stats_def render_store [OF assms]
        users_handler_visits [OF assms] user_detail_visits [OF assms] require_api_key_def
        messages_handler_visits [OF assms] search_visits [OF assms])

text \<open>
  With the template engine kept out of the store, every request, whatever its route,
  method, credential and body, and whatever the view answers or raises, leaves the visit
  counter one higher than it found it.
\<close>

lemma visit_counter_incremented_once:
  assumes "store_preserving rt"
  shows "visits (fst (handle_request rt e s r)) = visits s + 1"
  by (simp add: handle_request_store dispatch_request_def view_visits [OF assms]
        log_request_def)

text \<open>
  A search with no stored user and a query with a Jinja delimiter: the store after the
  request is the store that the template engine leaves.
\<close>

lemma search_store_from_engine:
  assumes "path r = Search" and "meth r = GET" and "args_q r = Some q"
    and "templated (str_lower rt q)" and "users s = []"
  shows "fst (handle_request rt e s r) =
           fst (jinja rt (log_request s) (SearchResultsPage (str_lower rt q) 0 []))"
proof -
  have "str_lower rt q \<noteq> []"
    using assms(4) by (auto simp: templated_def)
  then have "search rt (log_request s) r =
      with_status 200
        (render_template_string rt (log_request s) (SearchResultsPage (str_lower rt q) 0 []))"
    using assms(3,5) by (simp add: search_def propagate_def log_request_def)
  then show ?thesis
    using assms(1,2,4)
    by (simp add: handle_request_store dispatch_request_def fst_with_status fst_render)
qed

text \<open>
  C8. The counter does not survive every request. The search pastes the query into the
  template source; for the query \<open>update_visits\<close> the engine runs
  \<^verbatim>\<open>data_store.update(visits=0)\<close> after \<^verbatim>\<open>log_request\<close> has counted the visit, and the
  request that found the counter at 3 leaves it at 0.
\<close>

theorem visit_counter_reset_by_query:
  "visits three_users = 3
   \<and> visits (fst (handle_request rt0 env0 three_users (search_req (Some update_visits)))) = 0"
  by code_simp

subsection \<open>Message ids in reachable stores\<close>

lemma appended_refl: "appended ms ms"
  by (simp add: appended_def)

lemma propagate_messages_eq:
  assumes "\<And>v. x = Inr v \<Longrightarrow> messages (fst (k v)) = messages s"
  shows "messages (fst (propagate x s k)) = messages s"
  using assms by (cases x) (simp_all add: propagate_def)

lemma propagate_appended:
  assumes "\<And>v. x = Inr v \<Longrightarrow> appended (messages s) (messages (fst (k v)))"
  shows "appended (messages s) (messages (fst (propagate x s k)))"
  using assms by (cases x) (simp_all add: propagate_def appended_refl)

lemma users_post_messages: "messages (fst (users_post e s d)) = messages s"
  unfolding users_post_def
  by (auto intro!: propagate_messages_eq simp: Let_def)

lemma users_handler_messages:
  assumes "store_preserving rt"
  shows "messages (fst (users_handler rt e s r)) = messages s"
  unfolding users_handler_def
  by (auto intro!: propagate_messages_eq
        simp: users_post_messages json_refused_def render_store [OF assms]
        split: payload.splits)

lemma user_detail_messages:
  assumes "store_preserving rt"
  shows "messages (fst (user_detail rt e s r uid)) = messages s"
  unfolding user_detail_def
  by (auto intro!: propagate_messages_eq simp: render_store [OF assms] split: option.splits)

lemma search_messages:
  assumes "store_preserving rt"
  shows "messages (fst (search rt s r)) = messages s"
  unfolding search_def
  by (auto intro!: propagate_messages_eq simp: Let_def render_store [OF assms])

lemma messages_post_appended: "appended (messages s) (messages (fst (messages_post e s d)))"
  unfolding messages_post_def
  by (auto intro!: propagate_appended simp: Let_def appended_refl)
     (simp add: appended_def)

lemma messages_handler_appended:
  assumes "store_preserving rt"
  shows "appended (messages s) (messages (fst (messages_handler rt e s r)))"
proof (cases "meth r = POST")
  case True
  then show ?thesis
    by (cases "get_json r")
       (simp_all add: messages_handler_def messages_post_appended appended_refl
          json_refused_def)
next
  case False
  then have "messages (fst (messages_handler rt e s r)) = messages s"
    unfolding messages_handler_def
    by (auto intro!: propagate_messages_eq simp: render_store [OF assms])
  then show ?thesis by (simp add: appended_refl)
qed

lemma view_appended:
  assumes "store_preserving rt"
  shows "appended (messages s) (messages (fst (view rt e s r p)))"
proof (cases p)
  case Messages
  then show ?thesis
    by (simp add: require_api_key_def messages_handler_appended [OF assms] appended_refl)
qed (simp_all add: appended_refl home_def health_check_def get_stats_def not_found_def
      render_store [OF assms] users_handler_messages [OF assms]
      user_detail_messages [OF assms] search_messages [OF assms])

lemma handle_request_appended:
  assumes "store_preserving rt"
  shows "appended (messages s) (messages (fst (handle_request rt e s r)))"
proof -
  have "messages (log_request s) = messages s"
    by (simp add: log_request_def)
  moreover have "appended (messages (log_request s))
      (messages (fst (dispatch_request rt e (log_request s) r)))"
    using view_appended [OF assms, of "log_request s" e r "path r"]
    by (simp add: dispatch_request_def appended_refl)
  ultimately show ?thesis
    by (simp add: handle_request_store)
qed

lemma upto_snoc: "[1..1 + int n] = [1..int n] @ [1 + int n]"
  by (simp add: upto_rec2)

text \<open>
  With the template engine kept out of the store, the ids of the messages of every store
  reached from the empty one are 1, 2, ..., n in the order of the list.
\<close>

lemma message_ids_consecutive:
  assumes "store_preserving rt" and "reachable rt s"
  shows "map msg_id (messages s) = [1..int (length (messages s))]
       \<and> distinct (map msg_id (messages s))"
proof -
  have ids: "map msg_id (messages s) = [1..int (length (messages s))]"
    using assms(2)
  proof (induction rule: reachable.induct)
    case start
    show ?case by (simp add: init_store_def)
  next
    case (step s e r)
    from handle_request_appended [OF assms(1), of s e r] step.IH show ?case
      by (auto simp: appended_def upto_snoc)
  qed
  then show ?thesis by simp
qed

lemma reachable_run:
  assumes "reachable rt s"
  shows "reachable rt (run rt e s rs)"
  using assms unfolding run_def
  by (induction rs arbitrary: s) (auto intro: reachable.step)

text \<open>
  C10. Message ids do collide in a reachable store. After two messages are posted, a
  search with the query \<open>pop_message\<close> makes the engine run
  \<^verbatim>\<open>data_store['messages'].pop(0)\<close>; the store is left with the one message of id 2, and
  the next message posted gets the id 2 as well.
\<close>

theorem message_ids_collide_after_pop:
  "reachable rt0
     (run rt0 env0 init_store
        [message_req ''one'', message_req ''two'', search_req (Some pop_message),
         message_req ''three''])
   \<and> map msg_id (messages (run rt0 env0 init_store [message_req ''one'', message_req ''two'']))
       = [1, 2]
   \<and> map msg_id
       (messages (run rt0 env0 init_store
          [message_req ''one'', message_req ''two'', search_req (Some pop_message)]))
       = [2]
   \<and> map msg_id
       (messages (run rt0 env0 init_store
          [message_req ''one'', message_req ''two'', search_req (Some pop_message),
           message_req ''three'']))
       = [2, 2]"
proof -
  have "reachable rt0
     (run rt0 env0 init_store
        [message_req ''one'', message_req ''two'', search_req (Some pop_message),
         message_req ''three''])"
    by (rule reachable_run) (rule reachable.start)
  moreover have "map msg_id
      (messages (run rt0 env0 init_store [message_req ''one'', message_req ''two''])) = [1, 2]"
    by code_simp
  moreover have "map msg_id
       (messages (run rt0 env0 init_store
          [message_req ''one'', message_req ''two'', search_req (Some pop_message)]))
       = [2]"
    by code_simp
  moreover have "map msg_id
       (messages (run rt0 env0 init_store
          [message_req ''one'', message_req ''two'', search_req (Some pop_message),
           message_req ''three'']))
       = [2, 2]"
    by code_simp
  ultimately show ?thesis by blast
qed

end
